theory Spec2Isabelle
  imports Complex_Main "HOL-Library.Word"
begin

section \<open>The replicated store (package store)\<close>

text \<open>
  Times are nanosecond counts; the zero value of \<^verbatim>\<open>time.Time\<close> is \<open>0\<close>.
  A byte slice is a list of bytes; \<^verbatim>\<open>bytes.Equal\<close> is equality of the lists
  (a nil slice and an empty slice are both \<open>[]\<close>).
\<close>

type_synonym time = int

definition zero_time :: time where
  "zero_time = 0"

type_synonym bytes = "8 word list"

text \<open>
  The package \<^verbatim>\<open>restream/app\<close> that declares \<^verbatim>\<open>app.Config\<close> and
  \<^verbatim>\<open>app.ProcessID\<close> is not part of the sources at hand. The store uses three of
  its methods only; they are parameters of the model:
  \<^verbatim>\<open>Config.ProcessID()\<close>, \<^verbatim>\<open>ProcessID.String()\<close> and \<^verbatim>\<open>Config.Hash()\<close>.
\<close>

record ('c, 'pid) app =
  ProcessID :: "'c \<Rightarrow> 'pid"
  String :: "'pid \<Rightarrow> string"
  Hash :: "'c \<Rightarrow> bytes"

text \<open>
  \<^verbatim>\<open>type Process struct { CreatedAt, UpdatedAt time.Time; Config *app.Config;
  Metadata map[string]interface{} }\<close>. The pointer and the map may be nil: \<open>None\<close>.
\<close>

record ('c, 'j) process =
  CreatedAt :: time
  UpdatedAt :: time
  Config :: "'c option"
  Metadata :: "(string \<rightharpoonup> 'j) option"

text \<open>\<^verbatim>\<open>identity.User\<close>: the name, the superuser flag and the credentials bundle.\<close>

record 'a user =
  Name :: string
  Superuser :: bool
  Auth :: 'a

text \<open>
  The exported fields of \<^verbatim>\<open>store\<close>, the callback registered by \<^verbatim>\<open>OnApply\<close>
  (only whether it is set matters: its invocations are returned by \<open>Apply\<close>), and the
  three maps, which \<^verbatim>\<open>NewStore\<close> allocates.
\<close>

record ('c, 'j, 'a, 'pol) store =
  Process :: "string \<rightharpoonup> ('c, 'j) process"
  Users_UpdatedAt :: time
  Users_Users :: "string \<rightharpoonup> 'a user"
  Policies_UpdatedAt :: time
  Policies_Policies :: "string \<rightharpoonup> 'pol list"
  callback :: bool

definition NewStore :: "('c, 'j, 'a, 'pol) store" where
  "NewStore = \<lparr> Process = Map.empty, Users_UpdatedAt = zero_time, Users_Users = Map.empty,
      Policies_UpdatedAt = zero_time, Policies_Policies = Map.empty, callback = False \<rparr>"

text \<open>
  \<^verbatim>\<open>StoreError\<close> is a formatted string; the model keeps the format and its argument:
  \<^item> \<open>AlreadyExists id\<close>: "the process with the ID '%s' already exists";
  \<^item> \<open>NotFound id\<close>: "the process with the ID '%s' doesn't exist(s)";
  \<^item> \<open>IdentityExists name\<close>: "the identity with the name '%s' already exists";
  \<^item> \<open>InvalidLogEntry index term\<close>: "invalid log entry, index: %d, term: %d";
  \<^item> \<open>NilPointer\<close>: the panic of a method call through a nil \<^verbatim>\<open>*app.Config\<close>.
\<close>

datatype store_error =
    AlreadyExists string
  | NotFound string
  | IdentityExists string
  | InvalidLogEntry nat nat
  | NilPointer

subsection \<open>Commands\<close>

text \<open>
  \<^verbatim>\<open>Command{Operation, Data}\<close>. \<open>Apply\<close> re-marshals \<^verbatim>\<open>Data\<close> and unmarshals it
  into the command struct of the operation, ignoring errors, so each struct receives the
  fields of the JSON object that carry its field names and the zero value elsewhere. The
  payload record holds these fields; every command struct is a projection of it.
\<close>

record ('c, 'pid, 'j, 'a, 'pol) payload =
  pConfig :: "'c option"
  pID :: 'pid
  pKey :: string
  pData :: "'j option"
  pIdentity :: "'a user"
  pName :: string
  pPolicies :: "'pol list"

text \<open>The bytes of a log entry either fail to unmarshal into a \<^verbatim>\<open>Command\<close> or give one.\<close>

datatype ('c, 'pid, 'j, 'a, 'pol) entry_data =
    Malformed
  | Envelope string "('c, 'pid, 'j, 'a, 'pol) payload"

record ('c, 'pid, 'j, 'a, 'pol) raft_log =
  Index :: nat
  Term :: nat
  Data :: "('c, 'pid, 'j, 'a, 'pol) entry_data"

definition OpAddProcess :: string where "OpAddProcess = ''addProcess''"
definition OpRemoveProcess :: string where "OpRemoveProcess = ''removeProcess''"
definition OpUpdateProcess :: string where "OpUpdateProcess = ''updateProcess''"
definition OpSetProcessMetadata :: string where "OpSetProcessMetadata = ''setProcessMetadata''"
definition OpAddIdentity :: string where "OpAddIdentity = ''addIdentity''"
definition OpUpdateIdentity :: string where "OpUpdateIdentity = ''updateIdentity''"
definition OpRemoveIdentity :: string where "OpRemoveIdentity = ''removeIdentity''"
definition OpSetPolicies :: string where "OpSetPolicies = ''setPolicies''"

lemmas Op_defs = OpAddProcess_def OpRemoveProcess_def OpUpdateProcess_def
  OpSetProcessMetadata_def OpAddIdentity_def OpUpdateIdentity_def OpRemoveIdentity_def
  OpSetPolicies_def

subsection \<open>The operations\<close>

text \<open>
  Every operation takes the store and returns the error (\<open>None\<close> is \<^verbatim>\<open>nil\<close>) and the
  store it leaves. \<open>now\<close> is the reading of \<^verbatim>\<open>time.Now()\<close>.
\<close>

definition addProcess ::
  "('c, 'pid) app \<Rightarrow> time \<Rightarrow> 'c option \<Rightarrow> ('c, 'j, 'a, 'pol) store
    \<Rightarrow> store_error option \<times> ('c, 'j, 'a, 'pol) store" where
  "addProcess ap now cfg s =
     (case cfg of
        None \<Rightarrow> (Some NilPointer, s)
      | Some c \<Rightarrow>
          (let id = String ap (ProcessID ap c) in
           if Process s id \<noteq> None then (Some (AlreadyExists id), s)
           else (None, s\<lparr>Process := (Process s)(id \<mapsto>
                   \<lparr>CreatedAt = now, UpdatedAt = now, Config = Some c,
                    Metadata = Some Map.empty\<rparr>)\<rparr>)))"

definition removeProcess ::
  "('c, 'pid) app \<Rightarrow> 'pid \<Rightarrow> ('c, 'j, 'a, 'pol) store
    \<Rightarrow> store_error option \<times> ('c, 'j, 'a, 'pol) store" where
  "removeProcess ap pid s =
     (let id = String ap pid in
      if Process s id = None then (Some (NotFound id), s)
      else (None, s\<lparr>Process := (Process s)(id := None)\<rparr>))"

text \<open>
  \<^verbatim>\<open>updateProcess\<close>: the lookup of the source id, the comparison of the two hashes,
  then the replacement, in place or under the new id. The replacement record is the
  composite literal \<^verbatim>\<open>Process{UpdatedAt: time.Now(), Config: cmd.Config}\<close>: the fields it
  does not name have their zero values.
\<close>

definition updateProcess ::
  "('c, 'pid) app \<Rightarrow> time \<Rightarrow> 'pid \<Rightarrow> 'c option \<Rightarrow> ('c, 'j, 'a, 'pol) store
    \<Rightarrow> store_error option \<times> ('c, 'j, 'a, 'pol) store" where
  "updateProcess ap now pid cfg s =
     (let srcid = String ap pid in
      case cfg of
        None \<Rightarrow> (Some NilPointer, s)
      | Some c \<Rightarrow>
          (let dstid = String ap (ProcessID ap c) in
           case Process s srcid of
             None \<Rightarrow> (Some (NotFound srcid), s)
           | Some p \<Rightarrow>
               (case Config p of
                  None \<Rightarrow> (Some NilPointer, s)
                | Some pc \<Rightarrow>
                    (let currentHash = Hash ap pc; replaceHash = Hash ap c in
                     if currentHash = replaceHash then (None, s)
                     else if srcid = dstid then
                       (None, s\<lparr>Process := (Process s)(srcid \<mapsto>
                          \<lparr>CreatedAt = zero_time, UpdatedAt = now, Config = Some c,
                           Metadata = None\<rparr>)\<rparr>)
                     else if Process s dstid \<noteq> None then (Some (AlreadyExists dstid), s)
                     else
                       (None, s\<lparr>Process := ((Process s)(srcid := None))(dstid \<mapsto>
                          \<lparr>CreatedAt = zero_time, UpdatedAt = now, Config = Some c,
                           Metadata = None\<rparr>)\<rparr>)))))"

definition setProcessMetadata ::
  "('c, 'pid) app \<Rightarrow> time \<Rightarrow> 'pid \<Rightarrow> string \<Rightarrow> 'j option \<Rightarrow> ('c, 'j, 'a, 'pol) store
    \<Rightarrow> store_error option \<times> ('c, 'j, 'a, 'pol) store" where
  "setProcessMetadata ap now pid key data s =
     (let id = String ap pid in
      case Process s id of
        None \<Rightarrow> (Some (NotFound id), s)
      | Some p \<Rightarrow>
          (let m = (case Metadata p of None \<Rightarrow> Map.empty | Some m \<Rightarrow> m);
               m' = (case data of None \<Rightarrow> m(key := None) | Some d \<Rightarrow> m(key \<mapsto> d))
           in (None, s\<lparr>Process := (Process s)(id \<mapsto>
                  p\<lparr>Metadata := Some m', UpdatedAt := now\<rparr>)\<rparr>)))"

definition addIdentity ::
  "time \<Rightarrow> 'a user \<Rightarrow> ('c, 'j, 'a, 'pol) store
    \<Rightarrow> store_error option \<times> ('c, 'j, 'a, 'pol) store" where
  "addIdentity now u s =
     (if Users_Users s (Name u) \<noteq> None then (Some (IdentityExists (Name u)), s)
      else (None, s\<lparr>Users_UpdatedAt := now, Users_Users := (Users_Users s)(Name u \<mapsto> u)\<rparr>))"

definition updateIdentity ::
  "time \<Rightarrow> string \<Rightarrow> 'a user \<Rightarrow> ('c, 'j, 'a, 'pol) store
    \<Rightarrow> store_error option \<times> ('c, 'j, 'a, 'pol) store" where
  "updateIdentity now name u s =
     (if Users_Users s name \<noteq> None then
        (if name = Name u then
           (None, s\<lparr>Users_UpdatedAt := now, Users_Users := (Users_Users s)(Name u \<mapsto> u)\<rparr>)
         else if Users_Users s (Name u) = None then
           (None, s\<lparr>Users_UpdatedAt := now, Users_Users := (Users_Users s)(Name u \<mapsto> u)\<rparr>)
         else (Some (IdentityExists (Name u)), s))
      else (None, s))"

text \<open>\<^verbatim>\<open>removeIdentity\<close> reads the clock twice: \<open>now\<close> and \<open>now'\<close>.\<close>

definition removeIdentity ::
  "time \<Rightarrow> time \<Rightarrow> string \<Rightarrow> ('c, 'j, 'a, 'pol) store
    \<Rightarrow> store_error option \<times> ('c, 'j, 'a, 'pol) store" where
  "removeIdentity now now' name s =
     (None, s\<lparr>Users_Users := (Users_Users s)(name := None), Users_UpdatedAt := now,
              Policies_Policies := (Policies_Policies s)(name := None),
              Policies_UpdatedAt := now'\<rparr>)"

definition setPolicies ::
  "time \<Rightarrow> string \<Rightarrow> 'pol list \<Rightarrow> ('c, 'j, 'a, 'pol) store
    \<Rightarrow> store_error option \<times> ('c, 'j, 'a, 'pol) store" where
  "setPolicies now name ps s =
     (None, s\<lparr>Policies_Policies := (Policies_Policies s)(name \<mapsto> ps),
              Policies_UpdatedAt := now\<rparr>)"

definition OnApply :: "bool \<Rightarrow> ('c, 'j, 'a, 'pol) store \<Rightarrow> ('c, 'j, 'a, 'pol) store" where
  "OnApply fn s = s\<lparr>callback := fn\<rparr>"

subsection \<open>Apply\<close>

text \<open>
  The result of \<^verbatim>\<open>Apply\<close>: the value it returns, the store it leaves, and the operations
  the callback was invoked with. \<open>now\<close> and \<open>now'\<close> are the first and the second reading of
  the clock during the call.
\<close>

record ('c, 'j, 'a, 'pol) applied =
  returned :: "store_error option"
  after :: "('c, 'j, 'a, 'pol) store"
  notified :: "string list"

definition dispatch ::
  "('c, 'pid) app \<Rightarrow> time \<Rightarrow> time \<Rightarrow> string \<Rightarrow> ('c, 'pid, 'j, 'a, 'pol) payload
    \<Rightarrow> ('c, 'j, 'a, 'pol) store
    \<Rightarrow> (store_error option \<times> ('c, 'j, 'a, 'pol) store) option" where
  "dispatch ap now now' operation d s =
     (if operation = OpAddProcess then Some (addProcess ap now (pConfig d) s)
      else if operation = OpRemoveProcess then Some (removeProcess ap (pID d) s)
      else if operation = OpUpdateProcess then Some (updateProcess ap now (pID d) (pConfig d) s)
      else if operation = OpSetProcessMetadata then
        Some (setProcessMetadata ap now (pID d) (pKey d) (pData d) s)
      else if operation = OpAddIdentity then Some (addIdentity now (pIdentity d) s)
      else if operation = OpUpdateIdentity then
        Some (updateIdentity now (pName d) (pIdentity d) s)
      else if operation = OpRemoveIdentity then Some (removeIdentity now now' (pName d) s)
      else if operation = OpSetPolicies then Some (setPolicies now (pName d) (pPolicies d) s)
      else None)"

definition Apply ::
  "('c, 'pid) app \<Rightarrow> time \<Rightarrow> time \<Rightarrow> ('c, 'pid, 'j, 'a, 'pol) raft_log
    \<Rightarrow> ('c, 'j, 'a, 'pol) store \<Rightarrow> ('c, 'j, 'a, 'pol) applied" where
  "Apply ap now now' entry s =
     (case Data entry of
        Malformed \<Rightarrow>
          \<lparr>returned = Some (InvalidLogEntry (Index entry) (Term entry)), after = s,
           notified = []\<rparr>
      | Envelope operation d \<Rightarrow>
          (case dispatch ap now now' operation d s of
             None \<Rightarrow> \<lparr>returned = None, after = s, notified = []\<rparr>
           | Some (Some err, s') \<Rightarrow> \<lparr>returned = Some err, after = s', notified = []\<rparr>
           | Some (None, s') \<Rightarrow>
               \<lparr>returned = None, after = s',
                notified = (if callback s' then [operation] else [])\<rparr>))"


subsection \<open>Snapshot and Restore\<close>

text \<open>
  \<^verbatim>\<open>Snapshot\<close> marshals the store with \<^verbatim>\<open>json.Marshal\<close>, which writes the exported
  fields and skips the lock, the callback and the logger. The blob is modelled by the
  document it encodes, the values of the exported fields; how each value is spelled in
  JSON is outside the model.
\<close>

record ('c, 'j, 'a, 'pol) snapshot =
  sn_Process :: "string \<rightharpoonup> ('c, 'j) process"
  sn_Users_UpdatedAt :: time
  sn_Users_Users :: "string \<rightharpoonup> 'a user"
  sn_Policies_UpdatedAt :: time
  sn_Policies_Policies :: "string \<rightharpoonup> 'pol list"

definition Snapshot :: "('c, 'j, 'a, 'pol) store \<Rightarrow> ('c, 'j, 'a, 'pol) snapshot" where
  "Snapshot s = \<lparr>sn_Process = Process s, sn_Users_UpdatedAt = Users_UpdatedAt s,
     sn_Users_Users = Users_Users s, sn_Policies_UpdatedAt = Policies_UpdatedAt s,
     sn_Policies_Policies = Policies_Policies s\<rparr>"

text \<open>The body of the loop that closes \<^verbatim>\<open>Restore\<close>: a nil metadata map becomes empty.\<close>

definition normalize_metadata :: "('c, 'j) process \<Rightarrow> ('c, 'j) process" where
  "normalize_metadata p =
     (case Metadata p of None \<Rightarrow> p\<lparr>Metadata := Some Map.empty\<rparr> | Some m \<Rightarrow> p)"

text \<open>
  What the decoder has stored when it reports an error: some pairs of the three objects
  and, if it came to them, the timestamps.
\<close>

record ('c, 'j, 'a, 'pol) decoded =
  de_Process :: "string \<rightharpoonup> ('c, 'j) process"
  de_Users_UpdatedAt :: "time option"
  de_Users_Users :: "string \<rightharpoonup> 'a user"
  de_Policies_UpdatedAt :: "time option"
  de_Policies_Policies :: "string \<rightharpoonup> 'pol list"

text \<open>
  \<^verbatim>\<open>Restore\<close> decodes the reader into the store it is called on:
  \<^verbatim>\<open>dec.Decode(s)\<close>. Decoding a JSON object into a map that is not nil reuses the
  map: it stores the pairs of the object and keeps the entries under the other keys
  (\<^verbatim>\<open>encoding/json\<close>, \<^verbatim>\<open>Unmarshal\<close>). The reader holds either bytes on which the
  decoder reports an error (\<open>Inl\<close>: the error, and what the decoder has stored by then;
  that stays in the store, and the function returns before its loop) or a document
  (\<open>Inr\<close>): its pairs are stored, the two timestamps are overwritten, and the loop then
  runs over every process of the store.
\<close>

definition Restore ::
  "(string \<times> ('c, 'j, 'a, 'pol) decoded) + ('c, 'j, 'a, 'pol) snapshot
    \<Rightarrow> ('c, 'j, 'a, 'pol) store \<Rightarrow> string option \<times> ('c, 'j, 'a, 'pol) store" where
  "Restore reader s =
     (case reader of
        Inl (err, written) \<Rightarrow>
          (Some err,
           s\<lparr>Process := Process s ++ de_Process written,
             Users_UpdatedAt :=
               (case de_Users_UpdatedAt written of None \<Rightarrow> Users_UpdatedAt s | Some t \<Rightarrow> t),
             Users_Users := Users_Users s ++ de_Users_Users written,
             Policies_UpdatedAt :=
               (case de_Policies_UpdatedAt written of
                  None \<Rightarrow> Policies_UpdatedAt s | Some t \<Rightarrow> t),
             Policies_Policies := Policies_Policies s ++ de_Policies_Policies written\<rparr>)
      | Inr doc \<Rightarrow>
          (None,
           s\<lparr>Process := (\<lambda>id. map_option normalize_metadata ((Process s ++ sn_Process doc) id)),
             Users_UpdatedAt := sn_Users_UpdatedAt doc,
             Users_Users := Users_Users s ++ sn_Users_Users doc,
             Policies_UpdatedAt := sn_Policies_UpdatedAt doc,
             Policies_Policies := Policies_Policies s ++ sn_Policies_Policies doc\<rparr>))"


section \<open>The cluster coordinator (package cluster)\<close>

subsection \<open>The file index\<close>

text \<open>
  The four maps of \<^verbatim>\<open>cluster\<close> the index is made of. The node type of this version
  of the package is not part of the sources at hand: nodes are values of a type \<open>'n\<close> and
  their method \<^verbatim>\<open>getURL\<close> is a parameter. A nil slice of files is the empty list.
\<close>

record 'n file_index =
  nodes :: "string \<rightharpoonup> 'n"
  idfiles :: "string \<rightharpoonup> string list"
  idupdate :: "string \<rightharpoonup> time"
  fileid :: "string \<rightharpoonup> string"

definition new_index :: "'n file_index" where
  "new_index = \<lparr>nodes = Map.empty, idfiles = Map.empty, idupdate = Map.empty,
     fileid = Map.empty\<rparr>"

text \<open>\<^verbatim>\<open>NodeState\<close>, the message a node sends on the updates channel.\<close>

record node_state =
  ID :: string
  State :: string
  Files :: "string list"
  LastUpdate :: time

definition second :: int where
  "second = 1000000000"

datatype cluster_error =
    FileNotFound
  | ErrDegraded
  | NotLeader
  | InvalidIdentity
  | ForwarderError string
  | MarshalFailed string
  | ApplyFailed string
  | ConfigurationError string
  | TransferFailed string
  | RemoveServerFailed string

text \<open>The two range loops of the update consumer.\<close>

fun delete_files :: "string list \<Rightarrow> (string \<rightharpoonup> string) \<Rightarrow> (string \<rightharpoonup> string)" where
  "delete_files [] m = m"
| "delete_files (file # files) m = delete_files files (m(file := None))"

fun add_files :: "string \<Rightarrow> string list \<Rightarrow> (string \<rightharpoonup> string) \<Rightarrow> (string \<rightharpoonup> string)" where
  "add_files nid [] m = m"
| "add_files nid (file # files) m = add_files nid files (m(file \<mapsto> nid))"

text \<open>
  One iteration of the update consumer started by \<^verbatim>\<open>New\<close>, under the lock: the cleanup
  of what \<^verbatim>\<open>idfiles\<close> lists for the node, then, for a connected node, the new entries.
  The list stored back into \<^verbatim>\<open>idfiles\<close> is the local \<^verbatim>\<open>files\<close>, which was read from
  \<^verbatim>\<open>idfiles\<close> before the cleanup.
\<close>

definition consume_update :: "node_state \<Rightarrow> 'n file_index \<Rightarrow> 'n file_index" where
  "consume_update state c =
     (let files = (case idfiles c (ID state) of None \<Rightarrow> [] | Some fs \<Rightarrow> fs);
          c1 = c\<lparr>fileid := delete_files files (fileid c),
                 idfiles := (idfiles c)(ID state := None),
                 idupdate := (idupdate c)(ID state := None)\<rparr>
      in if State state = ''connected'' then
           c1\<lparr>fileid := add_files (ID state) (Files state) (fileid c1),
              idfiles := (idfiles c1)(ID state \<mapsto> files),
              idupdate := (idupdate c1)(ID state \<mapsto> LastUpdate state)\<rparr>
         else c1)"

fun consume_updates :: "node_state list \<Rightarrow> 'n file_index \<Rightarrow> 'n file_index" where
  "consume_updates [] c = c"
| "consume_updates (state # states) c = consume_updates states (consume_update state c)"

text \<open>
  \<^verbatim>\<open>GetURL\<close>. \<open>now\<close> is the clock read by \<^verbatim>\<open>time.Since\<close>; every failure is the
  error "file not found".
\<close>

definition GetURL ::
  "('n \<Rightarrow> string \<Rightarrow> 'e + string) \<Rightarrow> time \<Rightarrow> string \<Rightarrow> 'n file_index
    \<Rightarrow> cluster_error + string" where
  "GetURL getURL now path c =
     (case fileid c path of
        None \<Rightarrow> Inl FileNotFound
      | Some nid \<Rightarrow>
          (case idupdate c nid of
             None \<Rightarrow> Inl FileNotFound
           | Some ts \<Rightarrow>
               if now - ts > 2 * second then Inl FileNotFound
               else (case nodes c nid of
                       None \<Rightarrow> Inl FileNotFound
                     | Some node \<Rightarrow>
                         (case getURL node path of
                            Inl err \<Rightarrow> Inl FileNotFound
                          | Inr url \<Rightarrow> Inr url))))"

subsection \<open>The emergency-leader sentinel\<close>

text \<open>
  What \<^verbatim>\<open>stats["last_contact"]\<close> holds at a tick: the literal "never", a string that
  \<^verbatim>\<open>time.ParseDuration\<close> accepts (with the duration in nanoseconds), or anything else.
\<close>

datatype last_contact = Never | Duration int | Unparsable

text \<open>The variables of \<^verbatim>\<open>sentinel\<close> that live across ticks.\<close>

record sentinel_state =
  start :: time
  lastContactSince :: int
  isEmergencyLeader :: bool

definition sentinel_init :: "time \<Rightarrow> sentinel_state" where
  "sentinel_init now = \<lparr>start = now, lastContactSince = 0, isEmergencyLeader = False\<rparr>"

text \<open>The first half of a tick: the new duration and the new start.\<close>

definition read_contact :: "last_contact \<Rightarrow> time \<Rightarrow> sentinel_state \<Rightarrow> sentinel_state" where
  "read_contact lc now s =
     (case lc of
        Never \<Rightarrow> s\<lparr>lastContactSince := now - start s\<rparr>
      | Duration d \<Rightarrow> s\<lparr>lastContactSince := d, start := now\<rparr>
      | Unparsable \<Rightarrow> s\<lparr>lastContactSince := now - start s\<rparr>)"

text \<open>
  A tick: the state it leaves and the value it sends on \<^verbatim>\<open>raftEmergencyNotifyCh\<close>, if
  any (\<open>True\<close> forces leadership, \<open>False\<close> releases it).
\<close>

definition tick :: "last_contact \<Rightarrow> time \<Rightarrow> sentinel_state \<Rightarrow> sentinel_state \<times> bool option" where
  "tick lc now s =
     (let s1 = read_contact lc now s in
      if lastContactSince s1 > 10 * second \<and> \<not> isEmergencyLeader s1 then
        (s1\<lparr>isEmergencyLeader := True\<rparr>, Some True)
      else if lastContactSince s1 \<le> 10 * second \<and> isEmergencyLeader s1 then
        (s1\<lparr>isEmergencyLeader := False\<rparr>, Some False)
      else (s1, None))"

text \<open>The ticks before shutdown, in order, and the signals sent during them.\<close>

fun sentinel :: "(last_contact \<times> time) list \<Rightarrow> sentinel_state \<Rightarrow> bool list" where
  "sentinel [] s = []"
| "sentinel ((lc, now) # ticks) s =
     (case tick lc now s of
        (s', None) \<Rightarrow> sentinel ticks s'
      | (s', Some signal) \<Rightarrow> signal # sentinel ticks s')"

text \<open>No two consecutive signals are of the same kind.\<close>

fun alternating :: "bool list \<Rightarrow> bool" where
  "alternating (a # b # xs) = (a \<noteq> b \<and> alternating (b # xs))"
| "alternating xs = True"

subsection \<open>Leader-side operations\<close>

text \<open>
  What the coordinator asks of its collaborators, as answers given in advance: the
  leadership flag, the degraded flag (\<^verbatim>\<open>IsDegraded\<close> is not part of the sources at
  hand), the forwarder, \<^verbatim>\<open>json.Marshal\<close> and \<^verbatim>\<open>raft.Apply\<close> per operation, the Raft
  configuration, the leadership transfer and the removal of a server. An error is its
  message; \<open>None\<close> is nil. The two waiting loops of \<^verbatim>\<open>Leave\<close> read what changes while
  they sleep: \<open>hasRaftLeader_polls\<close> are the successive values of \<^verbatim>\<open>hasRaftLeader\<close>,
  \<open>removal_polls\<close> the successive pairs of \<^verbatim>\<open>time.Now().Before(limit)\<close> and the
  configuration then returned.
\<close>

record server =
  server_ID :: string
  server_Address :: string

record cluster_env =
  isRaftLeader :: bool
  isDegraded :: bool
  forwarder :: "string \<Rightarrow> string option"
  marshal :: "string \<Rightarrow> string option"
  raft_Apply :: "string \<Rightarrow> string option"
  GetConfiguration :: "string + server list"
  leadershipTransfer :: "string option"
  hasRaftLeader_polls :: "bool list"
  removal_polls :: "(bool \<times> (string + server list)) list"
  raft_RemoveServer :: "string \<Rightarrow> string option"

text \<open>
  What an operation did to the outside: a request sent through the forwarder, a command
  submitted to Raft (both with the operation they carry), a leadership transfer, a
  server removed from the configuration.
\<close>

datatype effect =
    Forwarded string
  | Submitted string
  | LeadershipTransfer
  | RemoveServer string

type_synonym outcome = "cluster_error option \<times> effect list"

definition applyCommand :: "cluster_env \<Rightarrow> string \<Rightarrow> outcome" where
  "applyCommand env operation =
     (case marshal env operation of
        Some err \<Rightarrow> (Some (MarshalFailed err), [])
      | None \<Rightarrow>
          (case raft_Apply env operation of
             Some err \<Rightarrow> (Some (ApplyFailed err), [Submitted operation])
           | None \<Rightarrow> (None, [Submitted operation])))"







text \<open>
  \<^verbatim>\<open>RemoveNode\<close>: refused on a follower, else the command \<^verbatim>\<open>opRemoveNode\<close> goes to
  Raft.
\<close>

definition RemoveNode :: "cluster_env \<Rightarrow> outcome" where
  "RemoveNode env =
     (if \<not> isRaftLeader env then (Some NotLeader, [])
      else applyCommand env ''removeNode'')"

subsection \<open>Leave\<close>

text \<open>
  The loop that waits for the local address to leave the configuration. It returns the
  flag \<^verbatim>\<open>left\<close>; \<open>None\<close> when the observations end before the loop does.
\<close>

fun wait_removed :: "string \<Rightarrow> (bool \<times> (string + server list)) list \<Rightarrow> bool option" where
  "wait_removed addr [] = None"
| "wait_removed addr ((before_limit, conf) # polls) =
     (if \<not> before_limit then Some False
      else case conf of
             Inl err \<Rightarrow> Some False
           | Inr servers \<Rightarrow>
               if addr \<notin> set (map server_Address servers) then Some True
               else wait_removed addr polls)"

text \<open>The loop that waits for a leader; it has no time limit.\<close>

fun wait_leader :: "bool list \<Rightarrow> unit option" where
  "wait_leader [] = None"
| "wait_leader (hasLeader # polls) = (if hasLeader then Some () else wait_leader polls)"

text \<open>
  \<^verbatim>\<open>Leave(origin, id)\<close> on the node \<open>self\<close> with Raft address \<open>raftAddress\<close>. The result
  is \<open>None\<close> when a waiting loop does not end within the observations of the environment.
\<close>

definition Leave :: "cluster_env \<Rightarrow> string \<Rightarrow> string \<Rightarrow> string \<Rightarrow> string \<Rightarrow> outcome option" where
  "Leave env self raftAddress origin id0 =
     (let id = (if length id0 = 0 then self else id0) in
      if \<not> isRaftLeader env then
        (case forwarder env ''leave'' of
           Some err \<Rightarrow> Some (Some (ForwarderError err), [Forwarded ''leave''])
         | None \<Rightarrow>
             (case wait_removed raftAddress (removal_polls env) of
                None \<Rightarrow> None
              | Some left \<Rightarrow> Some (None, [Forwarded ''leave''])))
      else
        (case GetConfiguration env of
           Inl err \<Rightarrow> Some (Some (ConfigurationError err), [])
         | Inr servers \<Rightarrow>
             (let numPeers = length servers in
              if id = self then
                (if numPeers \<le> 1 then Some (None, [])
                 else
                   (case leadershipTransfer env of
                      Some err \<Rightarrow> Some (Some (TransferFailed err), [LeadershipTransfer])
                    | None \<Rightarrow>
                        (case wait_leader (hasRaftLeader_polls env) of
                           None \<Rightarrow> None
                         | Some u \<Rightarrow>
                             (case forwarder env ''leave'' of
                                Some err \<Rightarrow>
                                  Some (Some (ForwarderError err),
                                        [LeadershipTransfer, Forwarded ''leave''])
                              | None \<Rightarrow>
                                  (case wait_removed raftAddress (removal_polls env) of
                                     None \<Rightarrow> None
                                   | Some left \<Rightarrow>
                                       Some (None,
                                             [LeadershipTransfer, Forwarded ''leave'']))))))
              else
                (let removed = snd (RemoveNode env) in
                 case raft_RemoveServer env id of
                   Some err \<Rightarrow> Some (Some (RemoveServerFailed err), removed @ [RemoveServer id])
                 | None \<Rightarrow> Some (None, removed @ [RemoveServer id])))))"

subsection \<open>The metrics task of a peer (package proxy)\<close>

text \<open>
  The resource sample of a node and the time of its last contact. \<^verbatim>\<open>float64\<close> values
  are modelled by reals.
\<close>

record resources =
  ncpu :: real
  cpu :: real
  mem :: "64 word"
  memTotal :: "64 word"
  lastContact :: time

text \<open>A metric of the response: its name and the values of its points.\<close>

record metric =
  metric_Name :: string
  metric_Values :: "real list"

text \<open>
  The range loop over \<^verbatim>\<open>metrics.Metrics\<close>, on the four locals
  \<^verbatim>\<open>cpu_ncpu, cpu_idle, mem_total, mem_free\<close>. \<^verbatim>\<open>x.Values[0]\<close> panics on an empty
  slice: \<open>None\<close>. \<open>u64\<close> is the conversion \<^verbatim>\<open>uint64(float64)\<close>.
\<close>

fun scan_metrics ::
  "(real \<Rightarrow> 64 word) \<Rightarrow> metric list \<Rightarrow> real \<times> real \<times> 64 word \<times> 64 word
    \<Rightarrow> (real \<times> real \<times> 64 word \<times> 64 word) option" where
  "scan_metrics u64 [] acc = Some acc"
| "scan_metrics u64 (x # xs) (cpu_ncpu, cpu_idle, mem_total, mem_free) =
     (if metric_Name x = ''cpu_idle'' then
        (case metric_Values x of [] \<Rightarrow> None
         | v # vs \<Rightarrow> scan_metrics u64 xs (cpu_ncpu, v, mem_total, mem_free))
      else if metric_Name x = ''cpu_ncpu'' then
        (case metric_Values x of [] \<Rightarrow> None
         | v # vs \<Rightarrow> scan_metrics u64 xs (v, cpu_idle, mem_total, mem_free))
      else if metric_Name x = ''mem_total'' then
        (case metric_Values x of [] \<Rightarrow> None
         | v # vs \<Rightarrow> scan_metrics u64 xs (cpu_ncpu, cpu_idle, u64 v, mem_free))
      else if metric_Name x = ''mem_free'' then
        (case metric_Values x of [] \<Rightarrow> None
         | v # vs \<Rightarrow> scan_metrics u64 xs (cpu_ncpu, cpu_idle, mem_total, u64 v))
      else scan_metrics u64 xs (cpu_ncpu, cpu_idle, mem_total, mem_free))"

text \<open>
  One tick of the metrics task: \<open>err\<close> and \<open>metrics\<close> are what \<^verbatim>\<open>n.peer.Metrics\<close>
  returned. The branch for an error writes its three values and the tick goes on with
  the statements after it.
\<close>

definition metrics_tick ::
  "(real \<Rightarrow> 64 word) \<Rightarrow> string option \<Rightarrow> metric list \<Rightarrow> time \<Rightarrow> resources
    \<Rightarrow> resources option" where
  "metrics_tick u64 err metrics now n =
     (let n1 = (if err \<noteq> None then n\<lparr>cpu := 100, ncpu := 1, mem := 0\<rparr> else n) in
      case scan_metrics u64 metrics (0, 0, 0, 0) of
        None \<Rightarrow> None
      | Some (cpu_ncpu, cpu_idle, mem_total, mem_free) \<Rightarrow>
          Some (n1\<lparr>ncpu := cpu_ncpu, cpu := (100 - cpu_idle) * cpu_ncpu,
                   mem := (if mem_total \<noteq> 0 then mem_total - mem_free else 0),
                   memTotal := (if mem_total \<noteq> 0 then mem_total else 0),
                   lastContact := now\<rparr>))"

section \<open>Concrete instances\<close>

text \<open>
  A small store for evaluation: a configuration is its process id together with the
  bytes its hash is computed from, and two processes \<open>a\<close> and \<open>b\<close> are stored with
  metadata and a creation time.
\<close>

definition demo_app :: "(string \<times> bytes, string) app" where
  "demo_app = \<lparr>ProcessID = fst, String = id, Hash = snd\<rparr>"

definition demo_process :: "string \<Rightarrow> bytes \<Rightarrow> (string \<times> bytes, nat) process" where
  "demo_process i h = \<lparr>CreatedAt = 1, UpdatedAt = 1, Config = Some (i, h),
     Metadata = Some [''k'' \<mapsto> 7]\<rparr>"

definition demo_store :: "(string \<times> bytes, nat, unit, unit) store" where
  "demo_store = NewStore\<lparr>Process :=
     [''a'' \<mapsto> demo_process ''a'' [1], ''b'' \<mapsto> demo_process ''b'' [2]]\<rparr>"

definition demo_payload :: "(string \<times> bytes, string, nat, unit, unit) payload" where
  "demo_payload = \<lparr>pConfig = Some (''a'', [3]), pID = ''a'', pKey = ''k'', pData = None,
     pIdentity = \<lparr>Name = ''alice'', Superuser = False, Auth = ()\<rparr>, pName = ''alice'',
     pPolicies = []\<rparr>"

definition demo_entry ::
  "string \<Rightarrow> (string \<times> bytes, string, nat, unit, unit) raft_log" where
  "demo_entry operation = \<lparr>Index = 4, Term = 1, Data = Envelope operation demo_payload\<rparr>"





text \<open>
  The store of a leader that holds the process \<open>a\<close> only, after an update that left its
  metadata nil.
\<close>

definition leader_store :: "(string \<times> bytes, nat, unit, unit) store" where
  "leader_store = NewStore\<lparr>Process :=
     [''a'' \<mapsto> \<lparr>CreatedAt = 0, UpdatedAt = 3, Config = Some (''a'', [4]), Metadata = None\<rparr>],
     Users_UpdatedAt := 2,
     Users_Users := [''alice'' \<mapsto> \<lparr>Name = ''alice'', Superuser = False, Auth = ()\<rparr>]\<rparr>"

lemmas demo_defs = demo_app_def demo_process_def demo_store_def demo_payload_def
  demo_entry_def leader_store_def NewStore_def zero_time_def

text \<open>
  A file index with a fresh node \<open>n1\<close>, a node \<open>n2\<close> that reported files but is not in the
  node map, and a file of a node \<open>n3\<close> without a time of update; a node is its address.
\<close>

definition demo_getURL :: "string \<Rightarrow> string \<Rightarrow> unit + string" where
  "demo_getURL node path = (if path = [] then Inl () else Inr (node @ ''/'' @ path))"

definition demo_index :: "string file_index" where
  "demo_index = \<lparr>nodes = [''n1'' \<mapsto> ''http://n1''],
     idfiles = [''n1'' \<mapsto> [''mem:x''], ''n2'' \<mapsto> [''mem:y'']],
     idupdate = [''n1'' \<mapsto> 10 * second, ''n2'' \<mapsto> 10 * second],
     fileid = [''mem:x'' \<mapsto> ''n1'', ''mem:y'' \<mapsto> ''n2'', ''mem:z'' \<mapsto> ''n3'']\<rparr>"

definition empty_index :: "unit file_index" where
  "empty_index = new_index"

definition connected_update :: node_state where
  "connected_update =
     \<lparr>ID = ''n1'', State = ''connected'', Files = [''mem:/a''], LastUpdate = 5\<rparr>"

definition disconnected_update :: node_state where
  "disconnected_update =
     \<lparr>ID = ''n1'', State = ''disconnected'', Files = [], LastUpdate = 6\<rparr>"

text \<open>
  A leader that is alone in its configuration, in degraded mode, whose collaborators
  all succeed.
\<close>

definition demo_env :: cluster_env where
  "demo_env = \<lparr>isRaftLeader = True, isDegraded = True, forwarder = Map.empty,
     marshal = Map.empty, raft_Apply = Map.empty,
     GetConfiguration = Inr [\<lparr>server_ID = ''A'', server_Address = ''127.0.0.1:7000''\<rparr>],
     leadershipTransfer = None, hasRaftLeader_polls = [], removal_polls = [],
     raft_RemoveServer = Map.empty\<rparr>"

text \<open>
  Five ticks of the sentinel, started at time 0: no contact at 5 s, 11 s and 12 s, a
  contact at 13 s, and a last contact 11 s old at 14 s.
\<close>

definition demo_ticks :: "(last_contact \<times> time) list" where
  "demo_ticks = [(Never, 5 * second), (Never, 11 * second), (Never, 12 * second),
     (Duration 0, 13 * second), (Duration (11 * second), 14 * second)]"

section \<open>Properties of the store\<close>

subsection \<open>updateProcess\<close>

text \<open>
  The cases of \<open>updateProcess\<close> in the order of the code. For a command with a
  configuration \<open>c\<close>, with \<open>srcid\<close> the key of the command's id and \<open>dstid\<close> the key of \<open>c\<close>:
  an absent \<open>srcid\<close> gives \<open>NotFound\<close>; equal hashes give nil and the same store; with
  different hashes, a \<open>dstid\<close> that differs from \<open>srcid\<close> and is present gives
  \<open>AlreadyExists\<close>, and otherwise the record under \<open>dstid\<close> holds \<open>c\<close> with
  \<open>UpdatedAt = now\<close>, \<open>srcid\<close> is gone when it differs from \<open>dstid\<close>, and every other key
  is as before.
\<close>

lemma updateProcess_cases:
  fixes ap :: "('c, 'pid) app" and s :: "('c, 'j, 'a, 'pol) store"
    and pid :: 'pid and c :: 'c and now :: time
  defines "srcid \<equiv> String ap pid" and "dstid \<equiv> String ap (ProcessID ap c)"
  defines "r \<equiv> updateProcess ap now pid (Some c) s"
  shows "(Process s srcid = None \<longrightarrow> r = (Some (NotFound srcid), s))
    \<and> (\<forall>p pc. Process s srcid = Some p \<and> Config p = Some pc \<longrightarrow>
          (Hash ap pc = Hash ap c \<longrightarrow> r = (None, s))
        \<and> (Hash ap pc \<noteq> Hash ap c \<and> dstid \<noteq> srcid \<and> Process s dstid \<noteq> None
              \<longrightarrow> r = (Some (AlreadyExists dstid), s))
        \<and> (Hash ap pc \<noteq> Hash ap c \<and> (dstid = srcid \<or> Process s dstid = None)
              \<longrightarrow> fst r = None
                \<and> (\<exists>p'. Process (snd r) dstid = Some p' \<and> Config p' = Some c
                       \<and> UpdatedAt p' = now)
                \<and> (\<forall>k. k \<noteq> srcid \<and> k \<noteq> dstid \<longrightarrow> Process (snd r) k = Process s k)
                \<and> (dstid \<noteq> srcid \<longrightarrow> Process (snd r) srcid = None)))"
  unfolding r_def srcid_def dstid_def
  by (auto simp: updateProcess_def Let_def)

text \<open>
  Every process of a store built by \<open>Apply\<close> from \<open>NewStore\<close> holds a configuration, and
  the key of that configuration is the key the process is stored under: the store has
  the property at the start and every entry applied keeps it.
\<close>

lemma NewStore_keyed:
  "Process (NewStore :: ('c, 'j, 'a, 'pol) store) k = Some p
    \<Longrightarrow> \<exists>pc. Config p = Some pc \<and> String ap (ProcessID ap pc) = k"
  by (simp add: NewStore_def)

lemma addProcess_keeps_keyed:
  assumes "\<And>k p. Process s k = Some p
      \<Longrightarrow> \<exists>pc. Config p = Some pc \<and> String ap (ProcessID ap pc) = k"
    and "Process (snd (addProcess ap now cfg s)) k = Some p"
  shows "\<exists>pc. Config p = Some pc \<and> String ap (ProcessID ap pc) = k"
  using assms
  by (cases cfg) (auto simp: addProcess_def Let_def split: if_splits)

lemma removeProcess_keeps_keyed:
  assumes "\<And>k p. Process s k = Some p
      \<Longrightarrow> \<exists>pc. Config p = Some pc \<and> String ap (ProcessID ap pc) = k"
    and "Process (snd (removeProcess ap pid s)) k = Some p"
  shows "\<exists>pc. Config p = Some pc \<and> String ap (ProcessID ap pc) = k"
  using assms
  by (auto simp: removeProcess_def Let_def split: if_splits)

lemma updateProcess_keeps_keyed:
  assumes inv: "\<And>k p. Process s k = Some p
      \<Longrightarrow> \<exists>pc. Config p = Some pc \<and> String ap (ProcessID ap pc) = k"
    and a: "Process (snd (updateProcess ap now pid cfg s)) k = Some p"
  shows "\<exists>pc. Config p = Some pc \<and> String ap (ProcessID ap pc) = k"
proof (cases cfg)
  case None
  with a inv show ?thesis by (simp add: updateProcess_def)
next
  case (Some c)
  show ?thesis
  proof (cases "Process s (String ap pid)")
    case None
    with Some a inv show ?thesis by (simp add: updateProcess_def)
  next
    case (Some q)
    with inv obtain qc where qc: "Config q = Some qc" by blast
    show ?thesis
    proof (cases "k = String ap (ProcessID ap c)")
      case True
      with \<open>cfg = Some c\<close> Some qc a inv [of k p] show ?thesis
        by (auto simp: updateProcess_def Let_def split: if_splits)
    next
      case False
      with \<open>cfg = Some c\<close> Some qc a have "Process s k = Some p"
        by (auto simp: updateProcess_def Let_def split: if_splits)
      with inv show ?thesis by blast
    qed
  qed
qed

lemma setProcessMetadata_keeps_keyed:
  assumes inv: "\<And>k p. Process s k = Some p
      \<Longrightarrow> \<exists>pc. Config p = Some pc \<and> String ap (ProcessID ap pc) = k"
    and a: "Process (snd (setProcessMetadata ap now pid key data s)) k = Some p"
  shows "\<exists>pc. Config p = Some pc \<and> String ap (ProcessID ap pc) = k"
proof (cases "Process s (String ap pid)")
  case None
  with a inv show ?thesis by (simp add: setProcessMetadata_def)
next
  case (Some q)
  show ?thesis
  proof (cases "k = String ap pid")
    case True
    with Some a have "Config p = Config q" by (auto simp: setProcessMetadata_def Let_def)
    with inv [of k q] Some True show ?thesis by simp
  next
    case False
    with Some a have "Process s k = Some p" by (auto simp: setProcessMetadata_def Let_def)
    with inv show ?thesis by blast
  qed
qed

lemma identity_operations_keep_processes:
  "Process (snd (addIdentity now u s)) = Process s"
  "Process (snd (updateIdentity now name u s)) = Process s"
  "Process (snd (removeIdentity now now' name s)) = Process s"
  "Process (snd (setPolicies now name ps s)) = Process s"
  by (simp_all add: addIdentity_def updateIdentity_def removeIdentity_def setPolicies_def)

lemma after_Apply:
  "after (Apply ap now now' entry s) =
     (case Data entry of Malformed \<Rightarrow> s
      | Envelope operation d \<Rightarrow>
          (case dispatch ap now now' operation d s of None \<Rightarrow> s | Some r \<Rightarrow> snd r))"
  by (auto simp: Apply_def split: entry_data.splits option.splits prod.splits)

lemma Apply_keeps_keyed:
  assumes inv: "\<And>k p. Process s k = Some p
      \<Longrightarrow> \<exists>pc. Config p = Some pc \<and> String ap (ProcessID ap pc) = k"
    and a: "Process (after (Apply ap now now' entry s)) k = Some p"
  shows "\<exists>pc. Config p = Some pc \<and> String ap (ProcessID ap pc) = k"
proof (cases "Data entry")
  case Malformed
  with a inv show ?thesis by (simp add: after_Apply)
next
  case (Envelope operation d)
  note add = addProcess_keeps_keyed [of s ap now "pConfig d" k p, OF inv]
    and remove = removeProcess_keeps_keyed [of s ap "pID d" k p, OF inv]
    and update = updateProcess_keeps_keyed [of s ap now "pID d" "pConfig d" k p, OF inv]
    and meta = setProcessMetadata_keeps_keyed
      [of s ap now "pID d" "pKey d" "pData d" k p, OF inv]
  from a Envelope inv [of k p] add remove update meta show ?thesis
    by (simp add: after_Apply dispatch_def identity_operations_keep_processes
        split: if_splits)
qed





text \<open>
  C10. When the source id is stored, the hashes differ and \<open>updateProcess\<close> returns nil,
  the record it wrote under the new key has the zero \<open>CreatedAt\<close>, \<open>UpdatedAt = now\<close>, the
  new configuration and a nil \<open>Metadata\<close> map: nothing of the prior record is kept.
\<close>

theorem updateProcess_replacement_record:
  assumes "Process s (String ap pid) = Some p" and "Config p = Some pc"
    and "Hash ap pc \<noteq> Hash ap c"
    and "updateProcess ap now pid (Some c) s = (None, s')"
  shows "Process s' (String ap (ProcessID ap c))
    = Some \<lparr>CreatedAt = zero_time, UpdatedAt = now, Config = Some c, Metadata = None\<rparr>"
  using assms by (auto simp: updateProcess_def Let_def split: if_splits)

theorem updateProcess_replacement_record_witness:
  "CreatedAt (demo_process ''a'' [1]) = 1
   \<and> Metadata (demo_process ''a'' [1]) \<noteq> None
   \<and> Process (snd (updateProcess demo_app 9 ''a'' (Some (''a'', [5])) demo_store)) ''a''
      = Some \<lparr>CreatedAt = 0, UpdatedAt = 9, Config = Some (''a'', [5]), Metadata = None\<rparr>"
proof -
  have a: "Process demo_store (String demo_app ''a'') = Some (demo_process ''a'' [1])"
    and c: "Config (demo_process ''a'' [1]) = Some (''a'', [1])"
    and h: "Hash demo_app (''a'', [1]) \<noteq> Hash demo_app (''a'', [5])"
    by (simp_all add: demo_defs)
  have r: "updateProcess demo_app 9 ''a'' (Some (''a'', [5])) demo_store
      = (None, snd (updateProcess demo_app 9 ''a'' (Some (''a'', [5])) demo_store))"
    by (simp add: updateProcess_def Let_def demo_defs)
  from updateProcess_replacement_record [OF a c h r]
  show ?thesis by (simp add: demo_defs)
qed

subsection \<open>Apply on an unknown operation\<close>

text \<open>
  C3 (as the code does it). When the operation of the command is none of the eight the
  switch dispatches on, \<open>Apply\<close> returns nil, leaves the store as it is and does not
  invoke the callback. That covers every other name, the node, key/value and lock
  operations included.
\<close>

theorem Apply_unknown_operation:
  assumes "Data entry = Envelope operation d"
    and "operation \<notin> {OpAddProcess, OpRemoveProcess, OpUpdateProcess, OpSetProcessMetadata,
           OpAddIdentity, OpUpdateIdentity, OpRemoveIdentity, OpSetPolicies}"
  shows "Apply ap now now' entry s = \<lparr>returned = None, after = s, notified = []\<rparr>"
  using assms by (simp add: Apply_def dispatch_def)

theorem Apply_unknown_operation_witness:
  "Apply demo_app 1 2 (demo_entry ''addNode'') (OnApply True demo_store)
     = \<lparr>returned = None, after = OnApply True demo_store, notified = []\<rparr>"
proof -
  have d: "Data (demo_entry ''addNode'') = Envelope ''addNode'' demo_payload"
    by (simp add: demo_entry_def)
  have n: "''addNode'' \<notin> {OpAddProcess, OpRemoveProcess, OpUpdateProcess,
      OpSetProcessMetadata, OpAddIdentity, OpUpdateIdentity, OpRemoveIdentity, OpSetPolicies}"
    by (simp add: Op_defs)
  from Apply_unknown_operation [OF d n] show ?thesis .
qed

text \<open>
  The claim as worded asks for an error value. The operation \<open>bogus\<close> is outside the
  fifteen names of the specification, and \<open>Apply\<close> returns nil for it.
\<close>

theorem Apply_unknown_operation_counterexample:
  "''bogus'' \<notin> {''addProcess'', ''removeProcess'', ''updateProcess'', ''setProcessMetadata'',
       ''addIdentity'', ''updateIdentity'', ''removeIdentity'', ''setPolicies'', ''addNode'',
       ''removeNode'', ''setNodeState'', ''setKV'', ''delKV'', ''acquireLock'', ''releaseLock''}
   \<and> returned (Apply demo_app 1 2 (demo_entry ''bogus'') demo_store) = None"
  by (simp add: Apply_def dispatch_def demo_entry_def Op_defs)

subsection \<open>Snapshot and Restore\<close>




text \<open>
  The maps of the receiving store are reused: a store that holds the processes \<open>a\<close> and
  \<open>b\<close> and restores the snapshot of the leader, which holds \<open>a\<close> only, still holds \<open>b\<close>.
\<close>

lemma Restore_keeps_other_keys:
  "sn_Process (Snapshot leader_store) ''b'' = None
   \<and> fst (Restore (Inr (Snapshot leader_store)) demo_store) = None
   \<and> Process (snd (Restore (Inr (Snapshot leader_store)) demo_store)) ''b''
        = Some (demo_process ''b'' [2])"
  by (simp add: Restore_def Snapshot_def demo_defs normalize_metadata_def map_add_def)

section \<open>Properties of the cluster coordinator\<close>

subsection \<open>Degraded mode\<close>



subsection \<open>The file index\<close>

text \<open>
  C5. \<open>GetURL\<close> returns a URL only when the path is mapped to a node that has a time of
  update at most two seconds before \<open>now\<close>, is in the node map and builds that URL; when
  the path is unmapped, the node has no time of update, the time is more than two
  seconds old, or the node is not in the node map, it fails with "file not found".
\<close>

theorem GetURL_fresh:
  "(GetURL getURL now path c = Inr url \<longrightarrow>
      (\<exists>nid ts node. fileid c path = Some nid \<and> idupdate c nid = Some ts
         \<and> now - ts \<le> 2 * second \<and> nodes c nid = Some node \<and> getURL node path = Inr url))
   \<and> ((fileid c path = None
        \<or> (\<exists>nid. fileid c path = Some nid
              \<and> (idupdate c nid = None
                   \<or> (\<exists>ts. idupdate c nid = Some ts \<and> now - ts > 2 * second)
                   \<or> nodes c nid = None)))
       \<longrightarrow> GetURL getURL now path c = Inl FileNotFound)"
  by (auto simp: GetURL_def split: option.splits sum.splits)

text \<open>
  At the concrete index: a hit that is exactly two seconds old, the same path one second
  later, an unmapped path, a node missing from the node map, a node without a time of
  update.
\<close>

theorem GetURL_fresh_witness:
  "GetURL demo_getURL (12 * second) ''mem:x'' demo_index = Inr ''http://n1/mem:x''
   \<and> 12 * second - 10 * second \<le> 2 * second
   \<and> GetURL demo_getURL (13 * second) ''mem:x'' demo_index = Inl FileNotFound
   \<and> GetURL demo_getURL (12 * second) ''mem:q'' demo_index = Inl FileNotFound
   \<and> GetURL demo_getURL (12 * second) ''mem:y'' demo_index = Inl FileNotFound
   \<and> GetURL demo_getURL (12 * second) ''mem:z'' demo_index = Inl FileNotFound"
proof -
  have x: "fileid demo_index ''mem:x'' = Some ''n1''"
    "idupdate demo_index ''n1'' = Some (10 * second)"
    and q: "fileid demo_index ''mem:q'' = None"
    and y: "fileid demo_index ''mem:y'' = Some ''n2''" "nodes demo_index ''n2'' = None"
    and z: "fileid demo_index ''mem:z'' = Some ''n3''" "idupdate demo_index ''n3'' = None"
    by (simp_all add: demo_index_def)
  have ok: "GetURL demo_getURL (12 * second) ''mem:x'' demo_index = Inr ''http://n1/mem:x''"
    by (simp add: GetURL_def demo_index_def demo_getURL_def second_def)
  from GetURL_fresh [of demo_getURL "12 * second" "''mem:x''" demo_index "''http://n1/mem:x''"] ok
  have 1: "12 * second - 10 * second \<le> 2 * second" using x by auto
  from GetURL_fresh [of demo_getURL "13 * second" "''mem:x''" demo_index] x
  have 2: "GetURL demo_getURL (13 * second) ''mem:x'' demo_index = Inl FileNotFound"
    by (simp add: second_def)
  from GetURL_fresh [of demo_getURL "12 * second" "''mem:q''" demo_index] q
  have 3: "GetURL demo_getURL (12 * second) ''mem:q'' demo_index = Inl FileNotFound" by simp
  from GetURL_fresh [of demo_getURL "12 * second" "''mem:y''" demo_index] y
  have 4: "GetURL demo_getURL (12 * second) ''mem:y'' demo_index = Inl FileNotFound" by simp
  from GetURL_fresh [of demo_getURL "12 * second" "''mem:z''" demo_index] z
  have 5: "GetURL demo_getURL (12 * second) ''mem:z'' demo_index = Inl FileNotFound" by simp
  from ok 1 2 3 4 5 show ?thesis by simp
qed

subsection \<open>The update consumer\<close>

lemma add_files_lookup:
  "add_files nid files m f = (if f \<in> set files then Some nid else m f)"
  by (induction files arbitrary: m) auto

lemma delete_files_lookup:
  "delete_files files m f = (if f \<in> set files then None else m f)"
  by (induction files arbitrary: m) auto

text \<open>
  What a connected update does: the time of update is the reported one, every reported
  file is mapped to the node, the files that \<open>idfiles\<close> listed for the node are unmapped,
  and \<open>idfiles\<close> lists for the node what it listed before.
\<close>

lemma consume_update_connected:
  assumes "State state = ''connected''"
  shows "idfiles (consume_update state c) (ID state)
           = Some (case idfiles c (ID state) of None \<Rightarrow> [] | Some fs \<Rightarrow> fs)"
    and "idupdate (consume_update state c) (ID state) = Some (LastUpdate state)"
    and "fileid (consume_update state c) f =
           (if f \<in> set (Files state) then Some (ID state)
            else if f \<in> set (case idfiles c (ID state) of None \<Rightarrow> [] | Some fs \<Rightarrow> fs)
            then None
            else fileid c f)"
  using assms
  by (simp_all add: consume_update_def Let_def add_files_lookup delete_files_lookup)

text \<open>
  C6 (where the code departs from it). From the empty index, the connected update of
  \<open>n1\<close> with the file \<open>mem:/a\<close> maps the file to \<open>n1\<close> but leaves the list of \<open>n1\<close> in
  \<open>idfiles\<close> empty, not the reported list; the disconnected update that follows
  therefore finds nothing to clean up and the file stays mapped to \<open>n1\<close>.
\<close>

theorem consume_update_keeps_old_list:
  "idfiles (consume_update connected_update empty_index) ''n1'' = Some []
   \<and> fileid (consume_update connected_update empty_index) ''mem:/a'' = Some ''n1''
   \<and> fileid (consume_updates [connected_update, disconnected_update] empty_index) ''mem:/a''
       = Some ''n1''"
  by (simp add: consume_update_def connected_update_def disconnected_update_def
      empty_index_def new_index_def Let_def)

subsection \<open>The emergency-leader sentinel\<close>

lemma tick_signal_flips:
  "tick lc now s = (s', Some b) \<Longrightarrow> b = (\<not> isEmergencyLeader s) \<and> isEmergencyLeader s' = b"
  by (auto simp: tick_def Let_def read_contact_def split: last_contact.splits if_splits)

lemma tick_silent:
  "tick lc now s = (s', None) \<Longrightarrow> isEmergencyLeader s' = isEmergencyLeader s"
  by (auto simp: tick_def Let_def read_contact_def split: last_contact.splits if_splits)

text \<open>
  The signals of a run alternate, and the first one is the opposite of the flag the run
  starts with.
\<close>

lemma sentinel_alternates_from:
  "alternating (isEmergencyLeader s # sentinel ticks s)"
proof (induction ticks arbitrary: s)
  case Nil
  show ?case by simp
next
  case (Cons t ticks)
  obtain lc now where t: "t = (lc, now)" by (cases t)
  obtain s' sig where tk: "tick lc now s = (s', sig)" by (cases "tick lc now s")
  show ?case
  proof (cases sig)
    case None
    with tk t Cons.IH [of s'] tick_silent [of lc now s s'] show ?thesis by simp
  next
    case (Some b)
    with tk have b: "b = (\<not> isEmergencyLeader s)" "isEmergencyLeader s' = b"
      using tick_signal_flips [of lc now s s' b] by simp_all
    from Cons.IH [of s'] b Some tk t show ?thesis by auto
  qed
qed

lemma tick_force:
  "snd (tick lc now s) = Some True \<longleftrightarrow>
     lastContactSince (fst (tick lc now s)) > 10 * second \<and> \<not> isEmergencyLeader s"
  by (auto simp: tick_def Let_def read_contact_def split: last_contact.splits)

lemma tick_release:
  "snd (tick lc now s) = Some False \<longleftrightarrow>
     lastContactSince (fst (tick lc now s)) \<le> 10 * second \<and> isEmergencyLeader s"
  by (auto simp: tick_def Let_def read_contact_def split: last_contact.splits)

text \<open>
  C8. A tick sends the force signal exactly when the duration it measured exceeds ten
  seconds and the sentinel is not in the emergency state, and the release signal exactly
  when the duration is at most ten seconds and the sentinel is in the emergency state.
  Over any run of ticks from any state \<open>s0\<close> the signals sent alternate, the first being
  the opposite of the flag of \<open>s0\<close>: from the initial state, force comes first.
\<close>

theorem sentinel_hysteresis:
  "(snd (tick lc now s) = Some True \<longleftrightarrow>
      lastContactSince (fst (tick lc now s)) > 10 * second \<and> \<not> isEmergencyLeader s)
   \<and> (snd (tick lc now s) = Some False \<longleftrightarrow>
      lastContactSince (fst (tick lc now s)) \<le> 10 * second \<and> isEmergencyLeader s)
   \<and> alternating (isEmergencyLeader s0 # sentinel ticks s0)"
  using tick_force tick_release sentinel_alternates_from by blast

theorem sentinel_hysteresis_witness:
  "sentinel demo_ticks (sentinel_init 0) = [True, False, True]
   \<and> alternating (False # sentinel demo_ticks (sentinel_init 0))
   \<and> snd (tick Never (11 * second) (sentinel_init 0)) = Some True
   \<and> lastContactSince (fst (tick Never (11 * second) (sentinel_init 0))) = 11 * second"
proof -
  have r: "sentinel demo_ticks (sentinel_init 0) = [True, False, True]"
    by (simp add: demo_ticks_def sentinel_init_def tick_def read_contact_def second_def
        Let_def)
  have i: "isEmergencyLeader (sentinel_init 0) = False" by (simp add: sentinel_init_def)
  from sentinel_hysteresis
    [of Never "11 * second" "sentinel_init 0" "sentinel_init 0" demo_ticks]
  have "alternating (False # sentinel demo_ticks (sentinel_init 0))"
    and "snd (tick Never (11 * second) (sentinel_init 0)) = Some True \<longleftrightarrow>
      lastContactSince (fst (tick Never (11 * second) (sentinel_init 0))) > 10 * second
      \<and> \<not> isEmergencyLeader (sentinel_init 0)"
    using i by simp_all
  moreover
  have "lastContactSince (fst (tick Never (11 * second) (sentinel_init 0))) = 11 * second"
    by (simp add: tick_def read_contact_def sentinel_init_def Let_def second_def)
  ultimately show ?thesis using r i by (simp add: second_def)
qed

subsection \<open>Leave\<close>

text \<open>
  C9. On the leader, when the configuration is read without error and has at most one
  server, \<open>Leave\<close> for the local node id (given as such or as the empty id, which stands
  for it) returns nil and does nothing: no transfer of leadership, no request through
  the forwarder, no server removed, no command submitted.
\<close>

theorem Leave_single_server:
  assumes "isRaftLeader env" and "GetConfiguration env = Inr servers"
    and "length servers \<le> 1" and "nid = self \<or> nid = []"
  shows "Leave env self raftAddress origin nid = Some (None, [])"
  using assms by (auto simp: Leave_def Let_def)

theorem Leave_single_server_witness:
  "Leave demo_env ''A'' ''127.0.0.1:7000'' ''B'' ''A'' = Some (None, [])
   \<and> Leave demo_env ''A'' ''127.0.0.1:7000'' ''B'' [] = Some (None, [])"
proof -
  have l: "isRaftLeader demo_env"
    and c: "GetConfiguration demo_env
      = Inr [\<lparr>server_ID = ''A'', server_Address = ''127.0.0.1:7000''\<rparr>]"
    and n: "length [\<lparr>server_ID = ''A'', server_Address = ''127.0.0.1:7000''\<rparr>] \<le> 1"
    by (simp_all add: demo_env_def)
  from Leave_single_server [OF l c n, where nid = "''A''" and self = "''A''"]
    Leave_single_server [OF l c n, where nid = "[]" and self = "''A''"]
  show ?thesis by simp
qed

section \<open>Properties of the metrics task\<close>

text \<open>Whether the query failed has no influence on what a tick leaves.\<close>

lemma metrics_tick_error_irrelevant:
  "metrics_tick u64 (Some err) metrics now n = metrics_tick u64 None metrics now n"
  by (simp add: metrics_tick_def split: option.splits)

text \<open>
  C7 (where the code departs from it). On a tick whose query returns an error and no
  metrics, the sample the tick leaves has \<open>ncpu = 0\<close> and \<open>cpu = 0\<close>: the values written
  for the error (\<open>cpu = 100\<close>, \<open>ncpu = 1\<close>) are overwritten by the statements that follow.
\<close>

theorem metrics_tick_error:
  "metrics_tick u64 (Some err) [] now n
     = Some (n\<lparr>ncpu := 0, cpu := 0, mem := 0, memTotal := 0, lastContact := now\<rparr>)"
  by (simp add: metrics_tick_def)

end
